theory Spec2Isabelle
  imports Complex_Main
begin

section \<open>The KML viewer component (src/src/KmlViewer.jsx)\<close>

text \<open>
  The component keeps five pieces of React state (\<open>geojsonData\<close>, \<open>elementCounts\<close>,
  \<open>lineLengths\<close>, \<open>activeView\<close>, \<open>isLoading\<close>) and talks to the outside through
  \<open>alert\<close>, \<open>console.error\<close>, \<open>FileReader.readAsText\<close>, \<open>event.preventDefault\<close> and
  \<open>map.fitBounds\<close>. The embedding passes one record holding the state together with a log
  of each of these effects, and every handler returns the updated record.

  The libraries the component calls (\<open>DOMParser.parseFromString\<close>, \<open>kml\<close> of
  @tmcw/togeojson, \<open>length\<close> and \<open>bbox\<close> of @turf/turf, the file reader) are not part of
  the repository. They are parameters of the model, collected in the record \<open>libs\<close>; a call
  that may throw returns a sum with the thrown error on the left.
\<close>

subsection \<open>JavaScript values used by the component\<close>

text \<open>A thrown value; the handlers only read its \<open>message\<close>.\<close>

datatype js_error = Error (message: string)

text \<open>
  A plain object used as a dictionary (\<open>const counts = {}\<close>): its own properties in
  insertion order, which is the order \<open>Object.entries\<close> renders the table rows in.
  Properties inherited from \<open>Object.prototype\<close> are not modelled; the keys stored here are
  GeoJSON geometry type labels.
\<close>

type_synonym 'v js_object = "(string \<times> 'v) list"

text \<open>\<open>obj[k]\<close>: \<open>None\<close> stands for \<open>undefined\<close>.\<close>

definition get_prop :: "'v js_object \<Rightarrow> string \<Rightarrow> 'v option" where
  "get_prop obj k = map_of obj k"

text \<open>\<open>obj[k] = v\<close>: an existing property keeps its position, a new one is appended.\<close>

primrec set_prop :: "string \<Rightarrow> 'v \<Rightarrow> 'v js_object \<Rightarrow> 'v js_object" where
  "set_prop k v [] = [(k, v)]"
| "set_prop k v (p # ps) = (if fst p = k then (k, v) # ps else p # set_prop k v ps)"

text \<open>\<open>Object.keys(obj)\<close>.\<close>

definition keys :: "'v js_object \<Rightarrow> string list" where
  "keys obj = map fst obj"

text \<open>\<open>Object.values(obj)\<close>.\<close>

definition vals :: "'v js_object \<Rightarrow> 'v list" where
  "vals obj = map snd obj"

text \<open>
  \<open>x || 0\<close> for a number or \<open>undefined\<close>: \<open>undefined\<close> and \<open>0\<close> are falsy. Counts are
  natural numbers and lengths are real numbers in this model, so \<open>NaN\<close> does not occur.
\<close>

definition or0 :: "'a::zero option \<Rightarrow> 'a" where
  "or0 x = (case x of None \<Rightarrow> 0 | Some v \<Rightarrow> if v = 0 then 0 else v)"

subsection \<open>GeoJSON data\<close>

text \<open>
  A geometry carries its \<open>type\<close> label and its coordinates; the component never looks
  inside the coordinates, so their type is a parameter. A feature's geometry may be
  \<open>null\<close>, and its \<open>properties.name\<close> may be absent.
\<close>

record 'c geometry =
  gtype :: "string option"
  coordinates :: 'c

record 'c feature =
  geometry :: "'c geometry option"
  name :: "string option"

record 'c feature_collection =
  features :: "'c feature list"

text \<open>\<open>feature.geometry?.type\<close>\<close>

definition geometry_type :: "'c feature \<Rightarrow> string option" where
  "geometry_type feature =
     (case geometry feature of None \<Rightarrow> None | Some g \<Rightarrow> gtype g)"

text \<open>\<open>!type\<close>: \<open>undefined\<close> and the empty string are falsy.\<close>

definition falsy :: "string option \<Rightarrow> bool" where
  "falsy t = (case t of None \<Rightarrow> True | Some s \<Rightarrow> s = [])"

subsection \<open>Library functions\<close>

type_synonym bbox = "real \<times> real \<times> real \<times> real"

record ('c, 'd, 'f) libs =
  parseFromString :: "string \<Rightarrow> js_error + 'd"
  kml :: "'d \<Rightarrow> js_error + 'c feature_collection"
  turf_length :: "'c feature \<Rightarrow> js_error + real"
  turf_bbox :: "'c feature_collection \<Rightarrow> js_error + bbox"
  readAsText :: "'f \<Rightarrow> string option"

subsection \<open>Component state and effects\<close>

datatype view = Summary | Details

record ('c, 'f) world =
  geojsonData :: "'c feature_collection option"
  elementCounts :: "nat js_object"
  lineLengths :: "real js_object"
  activeView :: "view option"
  isLoading :: bool
  alerts :: "string list"
  console_errors :: "js_error list"
  reads :: "'f list"
  prevented :: nat

text \<open>The state after the \<open>useState\<close> initialisers, with nothing logged yet.\<close>

definition initial :: "('c, 'f) world" where
  "initial = \<lparr>geojsonData = None, elementCounts = [], lineLengths = [],
     activeView = None, isLoading = False, alerts = [], console_errors = [],
     reads = [], prevented = 0\<rparr>"

subsection \<open>The metrics pass of \<open>parseKML\<close>\<close>

text \<open>
  The locals of the \<open>forEach\<close> loop: \<open>counts\<close>, \<open>lengths\<close>, and the errors handed to
  \<open>console.error\<close> so far.
\<close>

record pass =
  counts :: "nat js_object"
  lengths :: "real js_object"
  logged :: "js_error list"

definition line_types :: "string list" where
  "line_types = [''LineString'', ''MultiLineString'']"

text \<open>The body of the \<open>forEach\<close> callback (lines 52 to 68).\<close>

definition each_feature ::
  "('c feature \<Rightarrow> js_error + real) \<Rightarrow> pass \<Rightarrow> 'c feature \<Rightarrow> pass" where
  "each_feature len p feature =
     (let type = geometry_type feature in
      if falsy type then p
      else
        let t = the type;
            p1 = p\<lparr>counts := set_prop t (or0 (get_prop (counts p) t) + 1) (counts p)\<rparr>
        in if t \<in> set line_types then
             (case len feature of
                Inr featureLength \<Rightarrow>
                  p1\<lparr>lengths :=
                       set_prop t (or0 (get_prop (lengths p1) t) + featureLength) (lengths p1)\<rparr>
              | Inl e \<Rightarrow> p1\<lparr>logged := logged p1 @ [e]\<rparr>)
           else p1)"

definition forEach ::
  "('c feature \<Rightarrow> js_error + real) \<Rightarrow> 'c feature list \<Rightarrow> pass" where
  "forEach len fs = foldl (each_feature len) \<lparr>counts = [], lengths = [], logged = []\<rparr> fs"

subsection \<open>\<open>parseKML\<close>\<close>

text \<open>The \<open>catch\<close> block of \<open>parseKML\<close>.\<close>

definition catch_parse :: "js_error \<Rightarrow> ('c, 'f) world \<Rightarrow> ('c, 'f) world" where
  "catch_parse error w =
     w\<lparr>alerts := alerts w @ [''Error parsing KML file: '' @ message error]\<rparr>"

definition parseKML ::
  "('c, 'd, 'f) libs \<Rightarrow> string \<Rightarrow> ('c, 'f) world \<Rightarrow> ('c, 'f) world" where
  "parseKML L kmlText w =
     (let w1 = w\<lparr>isLoading := True\<rparr>;
          w2 = (case parseFromString L kmlText of
                  Inl error \<Rightarrow> catch_parse error w1
                | Inr kmlDoc \<Rightarrow>
                    (case kml L kmlDoc of
                       Inl error \<Rightarrow> catch_parse error w1
                     | Inr converted \<Rightarrow>
                         (let p = forEach (turf_length L) (features converted)
                          in w1\<lparr>console_errors := console_errors w1 @ logged p,
                                geojsonData := Some converted,
                                elementCounts := counts p,
                                lineLengths := lengths p\<rparr>)))
      in w2\<lparr>isLoading := False\<rparr>)"

subsection \<open>File handlers\<close>

text \<open>
  A change or drop event, reduced to its file list. \<open>files[0]\<close> of an empty list is
  \<open>undefined\<close>.
\<close>

record 'f event =
  files :: "'f list"

definition handleFileUpload :: "'f event \<Rightarrow> ('c, 'f) world \<Rightarrow> ('c, 'f) world" where
  "handleFileUpload e w =
     (case files e of
        [] \<Rightarrow> w
      | file # _ \<Rightarrow> w\<lparr>reads := reads w @ [file]\<rparr>)"

definition handleDrop :: "'f event \<Rightarrow> ('c, 'f) world \<Rightarrow> ('c, 'f) world" where
  "handleDrop e w =
     (let w1 = w\<lparr>prevented := prevented w + 1\<rparr> in
      case files e of
        [] \<Rightarrow> w1
      | file # _ \<Rightarrow> w1\<lparr>reads := reads w1 @ [file]\<rparr>)"

definition handleDragOver :: "('c, 'f) world \<Rightarrow> ('c, 'f) world" where
  "handleDragOver w = w\<lparr>prevented := prevented w + 1\<rparr>"

text \<open>
  Completion of a read that was started for \<open>file\<close>, in whatever order the reads
  finish: \<open>reader.onload\<close> runs \<open>parseKML\<close> on the text, \<open>reader.onerror\<close> alerts.
\<close>

definition reader_done ::
  "('c, 'd, 'f) libs \<Rightarrow> 'f \<Rightarrow> ('c, 'f) world \<Rightarrow> ('c, 'f) world" where
  "reader_done L file w =
     (let w1 = w\<lparr>reads := remove1 file (reads w)\<rparr> in
      case readAsText L file of
        Some result \<Rightarrow> parseKML L result w1
      | None \<Rightarrow> w1\<lparr>alerts := alerts w1 @ [''Error reading file'']\<rparr>)"

subsection \<open>View controls\<close>

definition clearData :: "('c, 'f) world \<Rightarrow> ('c, 'f) world" where
  "clearData w =
     w\<lparr>geojsonData := None, elementCounts := [], lineLengths := [], activeView := None\<rparr>"

text \<open>\<open>disabled={!geojsonData}\<close> on each of the three buttons; an object is truthy.\<close>

definition summary_disabled :: "('c, 'f) world \<Rightarrow> bool" where
  "summary_disabled w = (geojsonData w = None)"

definition details_disabled :: "('c, 'f) world \<Rightarrow> bool" where
  "details_disabled w = (geojsonData w = None)"

definition clear_disabled :: "('c, 'f) world \<Rightarrow> bool" where
  "clear_disabled w = (geojsonData w = None)"

text \<open>A click on a disabled button does not reach its handler.\<close>

definition click_summary :: "('c, 'f) world \<Rightarrow> ('c, 'f) world" where
  "click_summary w = (if summary_disabled w then w else w\<lparr>activeView := Some Summary\<rparr>)"

definition click_details :: "('c, 'f) world \<Rightarrow> ('c, 'f) world" where
  "click_details w = (if details_disabled w then w else w\<lparr>activeView := Some Details\<rparr>)"

definition click_clear :: "('c, 'f) world \<Rightarrow> ('c, 'f) world" where
  "click_clear w = (if clear_disabled w then w else clearData w)"

subsection \<open>\<open>FitBounds\<close>\<close>

text \<open>
  The Leaflet map, reduced to the bounds handed to \<open>map.fitBounds\<close> so far: the viewport
  is adjusted exactly when an entry is appended.
\<close>

type_synonym bounds = "(real \<times> real) \<times> (real \<times> real)"

record leaflet_map =
  fitted :: "bounds list"

text \<open>
  \<open>geojson?.features?.length > 0\<close> guards the body. \<open>bbox\<close> is a library call outside any
  \<open>try\<close>, so an error it throws leaves \<open>FitBounds\<close>.
\<close>

definition FitBounds ::
  "('c feature_collection \<Rightarrow> js_error + bbox) \<Rightarrow> 'c feature_collection option \<Rightarrow>
   leaflet_map \<Rightarrow> js_error + leaflet_map" where
  "FitBounds bbox geojson m =
     (case geojson of
        None \<Rightarrow> Inr m
      | Some g \<Rightarrow>
          if length (features g) > 0 then
            (case bbox g of
               Inl e \<Rightarrow> Inl e
             | Inr (minX, minY, maxX, maxY) \<Rightarrow>
                 Inr (m\<lparr>fitted := fitted m @ [((minY, minX), (maxY, maxX))]\<rparr>))
          else Inr m)"

subsection \<open>Predicates used in the statements\<close>

text \<open>
  The length measurement is attempted for a feature and throws: the feature has a
  geometry type, the type is line-like, and the library call ends in an error.
\<close>

definition measurement_fails :: "('c feature \<Rightarrow> js_error + real) \<Rightarrow> 'c feature \<Rightarrow> bool" where
  "measurement_fails len f =
     (\<not> falsy (geometry_type f) \<and> the (geometry_type f) \<in> set line_types \<and> isl (len f))"

text \<open>Every key is a line-like type and every stored length is non-negative.\<close>

definition lengths_ok :: "real js_object \<Rightarrow> bool" where
  "lengths_ok obj = (set (keys obj) \<subseteq> set line_types \<and> list_all (\<lambda>v. 0 \<le> v) (vals obj))"

text \<open>Every measured type has been counted, and every stored count is at least one.\<close>

definition pass_ok :: "pass \<Rightarrow> bool" where
  "pass_ok p =
     (set (keys (lengths p)) \<subseteq> set (keys (counts p)) \<and> list_all (\<lambda>c. 1 \<le> c) (vals (counts p)))"

subsection \<open>Sample inputs\<close>

text \<open>
  Concrete features and library behaviours on which the theorems below are run. The
  coordinates of a sample feature are a single number, which \<open>sample_length\<close> returns as
  the feature's length in kilometres, throwing when it is negative or when there is no
  geometry.

  The sample parser and converter behave as the browser's \<open>DOMParser\<close> and togeojson's
  \<open>kml\<close> do: neither throws on text that is not XML. The parser returns a document for
  every text (for malformed text, one that holds only a \<open>parsererror\<close> element), and
  the converter returns the placemarks it finds, which is an empty collection for every
  document other than the sample KML file \<open><kml/>\<close>.
\<close>

definition point_feature :: "real feature" where
  "point_feature =
     \<lparr>geometry = Some \<lparr>gtype = Some ''Point'', coordinates = 0\<rparr>, name = Some ''P''\<rparr>"

definition line_feature :: "real \<Rightarrow> real feature" where
  "line_feature x =
     \<lparr>geometry = Some \<lparr>gtype = Some ''LineString'', coordinates = x\<rparr>, name = None\<rparr>"

definition bare_feature :: "real feature" where
  "bare_feature = \<lparr>geometry = None, name = Some ''no geometry''\<rparr>"

definition sample_length :: "real feature \<Rightarrow> js_error + real" where
  "sample_length f =
     (case geometry f of
        None \<Rightarrow> Inl (Error ''no geometry'')
      | Some g \<Rightarrow>
          if coordinates g < 0 then Inl (Error ''bad coordinates'')
          else Inr (coordinates g))"

definition sample_libs :: "real feature list \<Rightarrow> (real, string, string) libs" where
  "sample_libs fs =
     \<lparr>parseFromString = (\<lambda>s. Inr s),
      kml = (\<lambda>d. if d = ''<kml/>'' then Inr \<lparr>features = fs\<rparr> else Inr \<lparr>features = []\<rparr>),
      turf_length = sample_length,
      turf_bbox = (\<lambda>g. Inr (0, 0, 1, 1)),
      readAsText = (\<lambda>f. if f = [] then None else Some f)\<rparr>"

text \<open>A state with data loaded and the summary panel open.\<close>

definition loaded_world :: "(real, string) world" where
  "loaded_world =
     click_summary (parseKML (sample_libs [point_feature, line_feature 5]) ''<kml/>'' initial)"

lemmas sample_defs =
  sample_libs_def sample_length_def point_feature_def line_feature_def bare_feature_def
  initial_def loaded_world_def

lemmas run_defs =
  parseKML_def catch_parse_def forEach_def each_feature_def geometry_type_def falsy_def
  line_types_def or0_def get_prop_def keys_def vals_def Let_def

lemmas more_defs = measurement_fails_def clearData_def click_clear_def click_summary_def
  click_details_def summary_disabled_def details_disabled_def clear_disabled_def

section \<open>Properties\<close>

subsection \<open>Objects as dictionaries\<close>

lemma get_prop_set_prop:
  "get_prop (set_prop k v obj) k' = (if k' = k then Some v else get_prop obj k')"
  by (induction obj) (auto simp: get_prop_def)

lemma keys_set_prop:
  "keys (set_prop k v obj) = (if k \<in> set (keys obj) then keys obj else keys obj @ [k])"
  by (induction obj) (auto simp: keys_def)

lemma set_keys_set_prop: "set (keys (set_prop k v obj)) = insert k (set (keys obj))"
  by (auto simp: keys_set_prop)

lemma distinct_keys_set_prop:
  "distinct (keys obj) \<Longrightarrow> distinct (keys (set_prop k v obj))"
  by (simp add: keys_set_prop)

lemma set_vals_set_prop: "set (vals (set_prop k v obj)) \<subseteq> insert v (set (vals obj))"
  by (induction obj) (auto simp: vals_def)

lemma get_prop_Some_vals: "get_prop obj k = Some v \<Longrightarrow> v \<in> set (vals obj)"
proof -
  assume "get_prop obj k = Some v"
  then have "(k, v) \<in> set obj"
    by (simp add: get_prop_def map_of_SomeD)
  then show ?thesis
    by (force simp: vals_def)
qed

lemma get_prop_None_iff: "get_prop obj k = None \<longleftrightarrow> k \<notin> set (keys obj)"
  by (simp add: get_prop_def keys_def map_of_eq_None_iff)

lemma or0_eq: "or0 x = (case x of None \<Rightarrow> 0 | Some v \<Rightarrow> v)"
  by (simp add: or0_def split: option.splits)

lemma sum_vals_bump:
  fixes obj :: "nat js_object"
  shows "sum_list (vals (set_prop k (Suc (or0 (get_prop obj k))) obj)) = Suc (sum_list (vals obj))"
  by (induction obj) (auto simp: vals_def get_prop_def or0_eq)

subsection \<open>The two outcomes of \<open>parseKML\<close>\<close>

lemma parseKML_success:
  assumes "parseFromString L kmlText = Inr kmlDoc" and "kml L kmlDoc = Inr converted"
  shows "parseKML L kmlText w =
           w\<lparr>isLoading := False,
             console_errors :=
               console_errors w @ logged (forEach (turf_length L) (features converted)),
             geojsonData := Some converted,
             elementCounts := counts (forEach (turf_length L) (features converted)),
             lineLengths := lengths (forEach (turf_length L) (features converted))\<rparr>"
  using assms by (simp add: parseKML_def Let_def)

lemma parseKML_failure:
  assumes "parseFromString L kmlText = Inl e \<or>
           (parseFromString L kmlText = Inr kmlDoc \<and> kml L kmlDoc = Inl e)"
  shows "parseKML L kmlText w =
           w\<lparr>isLoading := False,
             alerts := alerts w @ [''Error parsing KML file: '' @ message e]\<rparr>"
  using assms by (auto simp: parseKML_def Let_def catch_parse_def)

subsection \<open>Counting\<close>

lemma each_feature_counts:
  "counts (each_feature len p f) =
     (if falsy (geometry_type f) then counts p
      else set_prop (the (geometry_type f))
             (Suc (or0 (get_prop (counts p) (the (geometry_type f))))) (counts p))"
  by (simp add: each_feature_def Let_def split: sum.splits)

lemma foldl_counts_sum:
  "sum_list (vals (counts (foldl (each_feature len) p fs))) =
     sum_list (vals (counts p)) + length (filter (\<lambda>f. \<not> falsy (geometry_type f)) fs)"
  by (induction fs arbitrary: p) (simp_all add: each_feature_counts sum_vals_bump)

lemma forEach_counts_sum:
  "sum_list (vals (counts (forEach len fs))) =
     length (filter (\<lambda>f. \<not> falsy (geometry_type f)) fs)"
  by (simp add: forEach_def foldl_counts_sum) (simp add: vals_def)

lemma length_filter_full: "length (filter P xs) = length xs \<longleftrightarrow> (\<forall>x\<in>set xs. P x)"
proof (induction xs)
  case Nil
  show ?case by simp
next
  case (Cons x xs)
  show ?case
  proof (cases "P x")
    case True
    with Cons show ?thesis by simp
  next
    case False
    have "length (filter P xs) \<noteq> Suc (length xs)"
      using length_filter_le [of P xs] by linarith
    with False show ?thesis by simp
  qed
qed

text \<open>
  C1 (as stated): after a successful conversion the values of \<open>elementCounts\<close> sum to the
  number of features of the derived collection. This fails: a feature without a geometry
  type is kept in \<open>geojsonData\<close> but skipped by the loop. With one point and one placemark
  that has no geometry, the counts sum to 1 while the collection has 2 features.
\<close>

theorem counts_sum_total_counterexample:
  "sum_list (vals (elementCounts
      (parseKML (sample_libs [point_feature, bare_feature]) ''<kml/>'' initial)))
   \<noteq> length (features (the (geojsonData
      (parseKML (sample_libs [point_feature, bare_feature]) ''<kml/>'' initial))))"
  by (simp add: run_defs sample_defs)

text \<open>
  C1 (amended): after a successful conversion the values of \<open>elementCounts\<close> sum to the
  number of features of the derived collection that have a geometry type; the sum equals
  the total number of features exactly when every feature has one.
\<close>

theorem counts_sum_typed_features:
  assumes "parseFromString L kmlText = Inr kmlDoc" and "kml L kmlDoc = Inr converted"
  shows "geojsonData (parseKML L kmlText w) = Some converted \<and>
         sum_list (vals (elementCounts (parseKML L kmlText w))) =
           length (filter (\<lambda>f. \<not> falsy (geometry_type f)) (features converted)) \<and>
         (sum_list (vals (elementCounts (parseKML L kmlText w))) = length (features converted)
            \<longleftrightarrow> (\<forall>f \<in> set (features converted). \<not> falsy (geometry_type f)))"
  by (simp add: parseKML_success [OF assms] forEach_counts_sum length_filter_full)

theorem counts_sum_typed_features_witness:
  "sum_list (vals (elementCounts
      (parseKML (sample_libs [point_feature, bare_feature, line_feature 5]) ''<kml/>'' initial)))
   = 2 \<and>
   length (features (the (geojsonData
      (parseKML (sample_libs [point_feature, bare_feature, line_feature 5]) ''<kml/>'' initial))))
   = 3"
  using counts_sum_typed_features
    [of "sample_libs [point_feature, bare_feature, line_feature 5]" "''<kml/>''" "''<kml/>''"
        "\<lparr>features = [point_feature, bare_feature, line_feature 5]\<rparr>" initial]
  by (simp add: sample_defs geometry_type_def falsy_def)

subsection \<open>Text that is not XML\<close>

text \<open>
  C2: a file that is not XML should produce an error notification and leave the
  displayed data alone. The code does neither: the parser and the converter do not throw
  on such text, so the \<open>catch\<close> block of \<open>parseKML\<close> is not reached. With a point and a
  5 km line loaded and the summary open, parsing the text \<open>PK not xml\<close> shows no alert
  and replaces the collection, the counts and the lengths by empty ones.
\<close>

theorem non_xml_overwrites_without_alert:
  "geojsonData loaded_world = Some \<lparr>features = [point_feature, line_feature 5]\<rparr> \<and>
   elementCounts loaded_world = [(''Point'', 1), (''LineString'', 1)] \<and>
   lineLengths loaded_world = [(''LineString'', 5)] \<and>
   alerts (parseKML (sample_libs [point_feature, line_feature 5]) ''PK not xml'' loaded_world)
     = [] \<and>
   geojsonData (parseKML (sample_libs [point_feature, line_feature 5]) ''PK not xml'' loaded_world)
     = Some \<lparr>features = []\<rparr> \<and>
   elementCounts (parseKML (sample_libs [point_feature, line_feature 5]) ''PK not xml'' loaded_world)
     = [] \<and>
   lineLengths (parseKML (sample_libs [point_feature, line_feature 5]) ''PK not xml'' loaded_world)
     = []"
  by (simp add: run_defs sample_defs more_defs)

subsection \<open>Failed measurements\<close>

lemma each_feature_lengths:
  "lengths (each_feature len p f) =
     (if falsy (geometry_type f) \<or> the (geometry_type f) \<notin> set line_types then lengths p
      else case len f of
             Inl e \<Rightarrow> lengths p
           | Inr x \<Rightarrow>
               set_prop (the (geometry_type f))
                 (or0 (get_prop (lengths p) (the (geometry_type f))) + x) (lengths p))"
  by (simp add: each_feature_def Let_def split: sum.splits)

lemma each_feature_logged:
  "logged (each_feature len p f) =
     (if measurement_fails len f then logged p @ [projl (len f)] else logged p)"
  by (auto simp: each_feature_def measurement_fails_def Let_def split: sum.splits)

lemma each_feature_lengths_fails:
  "measurement_fails len f \<Longrightarrow> lengths (each_feature len p f) = lengths p"
  by (auto simp: each_feature_lengths measurement_fails_def split: sum.splits)

lemma each_feature_lengths_cong:
  "lengths p = lengths q \<Longrightarrow> lengths (each_feature len p f) = lengths (each_feature len q f)"
  by (simp add: each_feature_lengths split: sum.splits)

lemma foldl_lengths_skip:
  "lengths p = lengths q \<Longrightarrow>
   lengths (foldl (each_feature len) p fs) =
   lengths (foldl (each_feature len) q (filter (\<lambda>f. \<not> measurement_fails len f) fs))"
proof (induction fs arbitrary: p q)
  case Nil
  then show ?case by simp
next
  case (Cons f fs)
  show ?case
  proof (cases "measurement_fails len f")
    case True
    then have "lengths (each_feature len p f) = lengths q"
      using Cons.prems by (simp add: each_feature_lengths_fails)
    from Cons.IH [OF this] True show ?thesis by simp
  next
    case False
    have "lengths (each_feature len p f) = lengths (each_feature len q f)"
      using Cons.prems by (rule each_feature_lengths_cong)
    from Cons.IH [OF this] False show ?thesis by simp
  qed
qed

lemma foldl_logged:
  "logged (foldl (each_feature len) p fs) =
     logged p @ map (\<lambda>f. projl (len f)) (filter (measurement_fails len) fs)"
  by (induction fs arbitrary: p) (simp_all add: each_feature_logged)

text \<open>
  C3: after a successful conversion, whatever features make the length measurement throw,
  \<open>parseKML\<close> completes: it stores the converted collection without alerting, hands
  exactly the thrown errors to \<open>console.error\<close> (one per failing feature, in order),
  stores as \<open>lineLengths\<close> what the pass over the remaining features alone yields, and
  stores the counts of the pass over all features.
\<close>

theorem measurement_failure_is_skipped:
  assumes "parseFromString L kmlText = Inr kmlDoc" and "kml L kmlDoc = Inr converted"
  shows "geojsonData (parseKML L kmlText w) = Some converted \<and>
         alerts (parseKML L kmlText w) = alerts w \<and>
         isLoading (parseKML L kmlText w) = False \<and>
         console_errors (parseKML L kmlText w) =
           console_errors w @
           map (\<lambda>f. projl (turf_length L f))
             (filter (measurement_fails (turf_length L)) (features converted)) \<and>
         lineLengths (parseKML L kmlText w) =
           lengths (forEach (turf_length L)
             (filter (\<lambda>f. \<not> measurement_fails (turf_length L) f) (features converted))) \<and>
         elementCounts (parseKML L kmlText w) =
           counts (forEach (turf_length L) (features converted))"
proof -
  let ?len = "turf_length L" and ?fs = "features converted"
  have "logged (forEach ?len ?fs) =
      map (\<lambda>f. projl (?len f)) (filter (measurement_fails ?len) ?fs)"
    by (simp add: forEach_def foldl_logged)
  moreover have "lengths (forEach ?len ?fs) =
      lengths (forEach ?len (filter (\<lambda>f. \<not> measurement_fails ?len f) ?fs))"
    unfolding forEach_def by (rule foldl_lengths_skip) simp
  ultimately show ?thesis
    by (simp add: parseKML_success [OF assms])
qed

theorem measurement_failure_is_skipped_witness:
  "console_errors (parseKML
      (sample_libs [line_feature 5, line_feature (- 1), point_feature, line_feature 10])
      ''<kml/>'' initial) = [Error ''bad coordinates''] \<and>
   lineLengths (parseKML
      (sample_libs [line_feature 5, line_feature (- 1), point_feature, line_feature 10])
      ''<kml/>'' initial) = [(''LineString'', 15)] \<and>
   elementCounts (parseKML
      (sample_libs [line_feature 5, line_feature (- 1), point_feature, line_feature 10])
      ''<kml/>'' initial) = [(''LineString'', 3), (''Point'', 1)] \<and>
   alerts (parseKML
      (sample_libs [line_feature 5, line_feature (- 1), point_feature, line_feature 10])
      ''<kml/>'' initial) = []"
  using measurement_failure_is_skipped
    [of "sample_libs [line_feature 5, line_feature (- 1), point_feature, line_feature 10]"
        "''<kml/>''" "''<kml/>''"
        "\<lparr>features = [line_feature 5, line_feature (- 1), point_feature, line_feature 10]\<rparr>"
        initial]
  by (simp add: run_defs sample_defs more_defs)

subsection \<open>Invariants of the metrics pass\<close>

lemma or0_nonneg:
  fixes obj :: "real js_object"
  assumes "list_all (\<lambda>v. 0 \<le> v) (vals obj)"
  shows "0 \<le> or0 (get_prop obj k)"
proof (cases "get_prop obj k")
  case None
  then show ?thesis by (simp add: or0_eq)
next
  case (Some v)
  then have "v \<in> set (vals obj)" by (rule get_prop_Some_vals)
  with assms have "0 \<le> v" by (simp add: list_all_iff)
  with Some show ?thesis by (simp add: or0_eq)
qed

lemma lengths_ok_set_prop:
  assumes "lengths_ok obj" and "k \<in> set line_types" and "0 \<le> v"
  shows "lengths_ok (set_prop k v obj)"
proof -
  have "set (vals (set_prop k v obj)) \<subseteq> insert v (set (vals obj))"
    by (rule set_vals_set_prop)
  with assms show ?thesis
    by (auto simp: lengths_ok_def set_keys_set_prop list_all_iff)
qed

lemma each_feature_lengths_ok:
  assumes nonneg: "\<forall>f x. len f = Inr x \<longrightarrow> 0 \<le> x" and ok: "lengths_ok (lengths p)"
  shows "lengths_ok (lengths (each_feature len p f))"
proof (cases "falsy (geometry_type f) \<or> the (geometry_type f) \<notin> set line_types")
  case True
  with ok show ?thesis by (simp add: each_feature_lengths)
next
  case False
  show ?thesis
  proof (cases "len f")
    case (Inl e)
    with ok False show ?thesis by (simp add: each_feature_lengths)
  next
    case (Inr x)
    with nonneg have "0 \<le> x" by blast
    moreover have "0 \<le> or0 (get_prop (lengths p) (the (geometry_type f)))"
      using ok by (simp add: or0_nonneg lengths_ok_def)
    ultimately have "lengths_ok (set_prop (the (geometry_type f))
        (or0 (get_prop (lengths p) (the (geometry_type f))) + x) (lengths p))"
      using ok False by (intro lengths_ok_set_prop) simp_all
    with False Inr show ?thesis by (simp add: each_feature_lengths)
  qed
qed

lemma foldl_lengths_ok:
  assumes nonneg: "\<forall>f x. len f = Inr x \<longrightarrow> 0 \<le> x"
  shows "lengths_ok (lengths p) \<Longrightarrow> lengths_ok (lengths (foldl (each_feature len) p fs))"
  by (induction fs arbitrary: p) (simp_all add: each_feature_lengths_ok [OF nonneg])

lemma forEach_lengths_ok:
  assumes "\<forall>f x. len f = Inr x \<longrightarrow> 0 \<le> x"
  shows "lengths_ok (lengths (forEach len fs))"
  unfolding forEach_def
  by (rule foldl_lengths_ok [OF assms]) (simp add: lengths_ok_def keys_def vals_def)

lemma each_feature_pass_ok:
  assumes "pass_ok p"
  shows "pass_ok (each_feature len p f)"
proof (cases "falsy (geometry_type f)")
  case True
  with assms show ?thesis by (simp add: each_feature_def)
next
  case False
  let ?t = "the (geometry_type f)"
  let ?c = "Suc (or0 (get_prop (counts p) ?t))"
  have c: "counts (each_feature len p f) = set_prop ?t ?c (counts p)"
    using False by (simp add: each_feature_counts)
  have "set (vals (set_prop ?t ?c (counts p))) \<subseteq> insert ?c (set (vals (counts p)))"
    by (rule set_vals_set_prop)
  with assms have vals: "list_all (\<lambda>c. 1 \<le> c) (vals (counts (each_feature len p f)))"
    unfolding c by (auto simp: pass_ok_def list_all_iff)
  have "set (keys (lengths (each_feature len p f))) \<subseteq> insert ?t (set (keys (lengths p)))"
    by (auto simp: each_feature_lengths set_keys_set_prop split: sum.splits)
  with assms have "set (keys (lengths (each_feature len p f))) \<subseteq>
      set (keys (counts (each_feature len p f)))"
    unfolding c by (auto simp: pass_ok_def set_keys_set_prop)
  with vals show ?thesis by (simp add: pass_ok_def)
qed

lemma foldl_pass_ok: "pass_ok p \<Longrightarrow> pass_ok (foldl (each_feature len) p fs)"
  by (induction fs arbitrary: p) (simp_all add: each_feature_pass_ok)

lemma forEach_pass_ok: "pass_ok (forEach len fs)"
  unfolding forEach_def by (rule foldl_pass_ok) (simp add: pass_ok_def keys_def vals_def)

lemma foldl_distinct_keys:
  "distinct (keys (counts p)) \<and> distinct (keys (lengths p)) \<Longrightarrow>
   distinct (keys (counts (foldl (each_feature len) p fs))) \<and>
   distinct (keys (lengths (foldl (each_feature len) p fs)))"
  by (induction fs arbitrary: p)
     (simp_all add: each_feature_counts each_feature_lengths distinct_keys_set_prop
        split: sum.splits)

lemma forEach_distinct_keys:
  "distinct (keys (counts (forEach len fs))) \<and> distinct (keys (lengths (forEach len fs)))"
  unfolding forEach_def by (rule foldl_distinct_keys) (simp add: keys_def)

text \<open>
  C4: if the length function never returns a negative number, then after the metrics pass
  of a successful conversion every key of \<open>lineLengths\<close> is \<open>LineString\<close> or
  \<open>MultiLineString\<close> and every value stored in it is at least zero.
\<close>

theorem line_lengths_keys_and_sign:
  assumes "\<forall>f x. turf_length L f = Inr x \<longrightarrow> 0 \<le> x"
    and "parseFromString L kmlText = Inr kmlDoc" and "kml L kmlDoc = Inr converted"
  shows "set (keys (lineLengths (parseKML L kmlText w))) \<subseteq> {''LineString'', ''MultiLineString''} \<and>
         (\<forall>k v. get_prop (lineLengths (parseKML L kmlText w)) k = Some v \<longrightarrow> 0 \<le> v)"
proof -
  have ok: "lengths_ok (lengths (forEach (turf_length L) (features converted)))"
    using assms(1) by (rule forEach_lengths_ok)
  have eq: "lineLengths (parseKML L kmlText w) =
      lengths (forEach (turf_length L) (features converted))"
    by (simp add: parseKML_success [OF assms(2,3)])
  have "0 \<le> v" if "get_prop (lineLengths (parseKML L kmlText w)) k = Some v" for k v
  proof -
    from that have "v \<in> set (vals (lineLengths (parseKML L kmlText w)))"
      by (rule get_prop_Some_vals)
    with ok show ?thesis by (simp add: eq lengths_ok_def list_all_iff)
  qed
  moreover have "set (keys (lineLengths (parseKML L kmlText w))) \<subseteq> {''LineString'', ''MultiLineString''}"
    using ok by (simp add: eq lengths_ok_def line_types_def)
  ultimately show ?thesis by blast
qed

theorem line_lengths_keys_and_sign_witness:
  "keys (lineLengths (parseKML
      (sample_libs [line_feature 5, line_feature (- 1), point_feature, line_feature 10])
      ''<kml/>'' initial)) = [''LineString''] \<and>
   get_prop (lineLengths (parseKML
      (sample_libs [line_feature 5, line_feature (- 1), point_feature, line_feature 10])
      ''<kml/>'' initial)) ''LineString'' = Some 15 \<and>
   (0 :: real) \<le> 15"
proof -
  let ?L = "sample_libs [line_feature 5, line_feature (- 1), point_feature, line_feature 10]"
  have h1: "\<forall>f x. turf_length ?L f = Inr x \<longrightarrow> 0 \<le> x"
    by (simp add: sample_libs_def sample_length_def split: option.splits if_splits)
  have h2: "parseFromString ?L ''<kml/>'' = Inr ''<kml/>''"
    by (simp add: sample_libs_def)
  have h3: "kml ?L ''<kml/>'' =
      Inr \<lparr>features = [line_feature 5, line_feature (- 1), point_feature, line_feature 10]\<rparr>"
    by (simp add: sample_libs_def)
  have "lineLengths (parseKML ?L ''<kml/>'' initial) = [(''LineString'', 15)]"
    by (simp add: run_defs sample_defs)
  with line_lengths_keys_and_sign [OF h1 h2 h3, of initial] show ?thesis
    by (simp add: keys_def get_prop_def)
qed

subsection \<open>Clearing\<close>

text \<open>
  C5: in a state with data loaded, whatever the active view, a click on Clear runs
  \<open>clearData\<close>, which sets \<open>geojsonData\<close> to \<open>null\<close>, \<open>elementCounts\<close> and
  \<open>lineLengths\<close> to empty objects and \<open>activeView\<close> to \<open>null\<close>; afterwards the three
  buttons are disabled and clicking them changes nothing.
\<close>

theorem clear_resets_and_disables:
  assumes "geojsonData w = Some g"
  shows "click_clear w = clearData w \<and>
         geojsonData (clearData w) = None \<and>
         elementCounts (clearData w) = [] \<and>
         lineLengths (clearData w) = [] \<and>
         activeView (clearData w) = None \<and>
         summary_disabled (clearData w) \<and>
         details_disabled (clearData w) \<and>
         clear_disabled (clearData w) \<and>
         click_summary (clearData w) = clearData w \<and>
         click_details (clearData w) = clearData w \<and>
         click_clear (clearData w) = clearData w"
  using assms by (simp add: more_defs)

theorem clear_resets_and_disables_witness:
  "activeView loaded_world = Some Summary \<and>
   geojsonData loaded_world = Some \<lparr>features = [point_feature, line_feature 5]\<rparr> \<and>
   geojsonData (click_clear loaded_world) = None \<and>
   elementCounts (click_clear loaded_world) = [] \<and>
   lineLengths (click_clear loaded_world) = [] \<and>
   activeView (click_clear loaded_world) = None \<and>
   clear_disabled (click_clear loaded_world)"
proof -
  have h: "geojsonData loaded_world = Some \<lparr>features = [point_feature, line_feature 5]\<rparr>"
    by (simp add: loaded_world_def more_defs run_defs sample_defs)
  have "activeView loaded_world = Some Summary"
    by (simp add: loaded_world_def more_defs run_defs sample_defs)
  with h clear_resets_and_disables [OF h] show ?thesis
    by simp
qed

subsection \<open>Parsing twice\<close>

text \<open>
  C6: parsing the same text a second time leaves \<open>elementCounts\<close> and \<open>lineLengths\<close> as
  the first parse left them, from any starting state; and when the conversion succeeds
  the two results do not depend on the starting state at all. The library functions are
  functions of their arguments, which is the determinism the claim assumes.
\<close>

theorem parse_twice_same_metrics:
  "elementCounts (parseKML L kmlText (parseKML L kmlText w)) =
     elementCounts (parseKML L kmlText w) \<and>
   lineLengths (parseKML L kmlText (parseKML L kmlText w)) =
     lineLengths (parseKML L kmlText w) \<and>
   (parseFromString L kmlText = Inr kmlDoc \<and> kml L kmlDoc = Inr converted \<longrightarrow>
      elementCounts (parseKML L kmlText w) = elementCounts (parseKML L kmlText w') \<and>
      lineLengths (parseKML L kmlText w) = lineLengths (parseKML L kmlText w'))"
proof -
  have twice: "elementCounts (parseKML L kmlText (parseKML L kmlText w)) =
        elementCounts (parseKML L kmlText w) \<and>
      lineLengths (parseKML L kmlText (parseKML L kmlText w)) =
        lineLengths (parseKML L kmlText w)"
  proof (cases "parseFromString L kmlText")
    case (Inl e)
    then show ?thesis by (simp add: parseKML_failure [OF disjI1])
  next
    case (Inr d)
    show ?thesis
    proof (cases "kml L d")
      case (Inl e)
      with Inr have "parseFromString L kmlText = Inl e \<or>
          (parseFromString L kmlText = Inr d \<and> kml L d = Inl e)"
        by simp
      then show ?thesis by (simp add: parseKML_failure)
    next
      case inner: (Inr c)
      show ?thesis by (simp add: parseKML_success [OF Inr inner])
    qed
  qed
  have "elementCounts (parseKML L kmlText w) = elementCounts (parseKML L kmlText w') \<and>
      lineLengths (parseKML L kmlText w) = lineLengths (parseKML L kmlText w')"
    if "parseFromString L kmlText = Inr kmlDoc" and "kml L kmlDoc = Inr converted"
    by (simp add: parseKML_success [OF that])
  with twice show ?thesis by blast
qed

theorem parse_twice_same_metrics_witness:
  "elementCounts (parseKML (sample_libs [line_feature 5, point_feature]) ''<kml/>''
      (parseKML (sample_libs [line_feature 5, point_feature]) ''<kml/>'' initial))
     = [(''LineString'', 1), (''Point'', 1)] \<and>
   elementCounts (parseKML (sample_libs [line_feature 5, point_feature]) ''<kml/>'' initial)
     = [(''LineString'', 1), (''Point'', 1)] \<and>
   lineLengths (parseKML (sample_libs [line_feature 5, point_feature]) ''<kml/>''
      (parseKML (sample_libs [line_feature 5, point_feature]) ''<kml/>'' initial))
     = [(''LineString'', 5)] \<and>
   lineLengths (parseKML (sample_libs [line_feature 5, point_feature]) ''<kml/>'' loaded_world)
     = lineLengths (parseKML (sample_libs [line_feature 5, point_feature]) ''<kml/>'' initial)"
proof -
  let ?L = "sample_libs [line_feature 5, point_feature]"
  have h: "parseFromString ?L ''<kml/>'' = Inr ''<kml/>'' \<and>
      kml ?L ''<kml/>'' = Inr \<lparr>features = [line_feature 5, point_feature]\<rparr>"
    by (simp add: sample_libs_def)
  have "elementCounts (parseKML ?L ''<kml/>'' initial) = [(''LineString'', 1), (''Point'', 1)]"
    and "lineLengths (parseKML ?L ''<kml/>'' initial) = [(''LineString'', 5)]"
    by (simp_all add: run_defs sample_defs)
  with h parse_twice_same_metrics [of ?L "''<kml/>''" initial "''<kml/>''"
      "\<lparr>features = [line_feature 5, point_feature]\<rparr>" loaded_world]
  show ?thesis by simp
qed

subsection \<open>Fitting the viewport\<close>

text \<open>
  C7: \<open>FitBounds\<close> leaves the map as it is when there is no collection or the collection
  has no features; with at least one feature it calls \<open>map.fitBounds\<close> once with the
  corners of the bounding box; and whenever it returns a changed map, the collection had
  at least one feature.
\<close>

theorem fit_bounds_only_with_features:
  "FitBounds bbox None m = Inr m \<and>
   (features g = [] \<longrightarrow> FitBounds bbox (Some g) m = Inr m) \<and>
   (features g \<noteq> [] \<and> bbox g = Inr (minX, minY, maxX, maxY) \<longrightarrow>
      FitBounds bbox (Some g) m = Inr (m\<lparr>fitted := fitted m @ [((minY, minX), (maxY, maxX))]\<rparr>)) \<and>
   (FitBounds bbox geojson m = Inr m' \<and> m' \<noteq> m \<longrightarrow>
      (\<exists>g'. geojson = Some g' \<and> features g' \<noteq> []))"
  by (auto simp: FitBounds_def split: option.splits sum.splits if_splits)

theorem fit_bounds_only_with_features_witness:
  "FitBounds (turf_bbox (sample_libs [])) (Some \<lparr>features = []\<rparr>) \<lparr>fitted = [((2, 3), (4, 5))]\<rparr>
     = Inr \<lparr>fitted = [((2, 3), (4, 5))]\<rparr> \<and>
   FitBounds (turf_bbox (sample_libs [])) (Some \<lparr>features = [point_feature]\<rparr>)
       \<lparr>fitted = [((2, 3), (4, 5))]\<rparr>
     = Inr \<lparr>fitted = [((2, 3), (4, 5)), ((0, 0), (1, 1))]\<rparr>"
  using fit_bounds_only_with_features
      [of "turf_bbox (sample_libs [])" "\<lparr>fitted = [((2, 3), (4, 5))]\<rparr>" "\<lparr>features = []\<rparr>"]
    fit_bounds_only_with_features
      [of "turf_bbox (sample_libs [])" "\<lparr>fitted = [((2, 3), (4, 5))]\<rparr>"
          "\<lparr>features = [point_feature]\<rparr>" 0 0 1 1]
  by (simp add: sample_libs_def)

subsection \<open>Events without files\<close>

text \<open>
  C8: on an event without files, \<open>handleFileUpload\<close> changes nothing at all and
  \<open>handleDrop\<close> only suppresses the browser's default action: no read is started, no
  alert is shown, nothing is logged and every state field keeps its value.
\<close>

theorem no_files_no_effect:
  assumes "files e = []"
  shows "handleFileUpload e w = w \<and>
         handleDrop e w = w\<lparr>prevented := prevented w + 1\<rparr> \<and>
         geojsonData (handleDrop e w) = geojsonData w \<and>
         elementCounts (handleDrop e w) = elementCounts w \<and>
         lineLengths (handleDrop e w) = lineLengths w \<and>
         activeView (handleDrop e w) = activeView w \<and>
         isLoading (handleDrop e w) = isLoading w \<and>
         alerts (handleDrop e w) = alerts w \<and>
         console_errors (handleDrop e w) = console_errors w \<and>
         reads (handleDrop e w) = reads w"
  using assms by (simp add: handleFileUpload_def handleDrop_def)

theorem no_files_no_effect_witness:
  "files \<lparr>files = ([] :: string list)\<rparr> = [] \<and>
   handleFileUpload \<lparr>files = []\<rparr> loaded_world = loaded_world \<and>
   reads (handleDrop \<lparr>files = []\<rparr> loaded_world) = [] \<and>
   alerts (handleDrop \<lparr>files = []\<rparr> loaded_world) = [] \<and>
   reads (handleDrop \<lparr>files = [''a.kml'']\<rparr> loaded_world) = [''a.kml'']"
proof -
  have h: "files \<lparr>files = ([] :: string list)\<rparr> = []" by simp
  have "reads loaded_world = []" and "alerts loaded_world = []"
    by (simp_all add: loaded_world_def more_defs run_defs sample_defs)
  with h no_files_no_effect [OF h, of loaded_world] show ?thesis
    by (simp add: handleDrop_def)
qed

subsection \<open>Counts and lengths together\<close>

text \<open>
  C9: after the metrics pass of a successful conversion, every key of \<open>lineLengths\<close> is
  a key of \<open>elementCounts\<close>, and every value stored in \<open>elementCounts\<close> is at least one.
\<close>

theorem line_keys_counted_and_counts_positive:
  assumes "parseFromString L kmlText = Inr kmlDoc" and "kml L kmlDoc = Inr converted"
  shows "set (keys (lineLengths (parseKML L kmlText w))) \<subseteq>
           set (keys (elementCounts (parseKML L kmlText w))) \<and>
         (\<forall>k c. get_prop (elementCounts (parseKML L kmlText w)) k = Some c \<longrightarrow> 1 \<le> c)"
proof -
  let ?p = "forEach (turf_length L) (features converted)"
  have ok: "pass_ok ?p" by (rule forEach_pass_ok)
  have eq: "lineLengths (parseKML L kmlText w) = lengths ?p"
    "elementCounts (parseKML L kmlText w) = counts ?p"
    by (simp_all add: parseKML_success [OF assms])
  have "1 \<le> c" if "get_prop (counts ?p) k = Some c" for k c
  proof -
    from that have "c \<in> set (vals (counts ?p))" by (rule get_prop_Some_vals)
    with ok show ?thesis by (simp add: pass_ok_def list_all_iff)
  qed
  moreover have "set (keys (lengths ?p)) \<subseteq> set (keys (counts ?p))"
    using ok by (simp add: pass_ok_def)
  ultimately show ?thesis unfolding eq by blast
qed

theorem line_keys_counted_and_counts_positive_witness:
  "keys (lineLengths (parseKML (sample_libs [point_feature, line_feature 5, line_feature 10])
      ''<kml/>'' initial)) = [''LineString''] \<and>
   elementCounts (parseKML (sample_libs [point_feature, line_feature 5, line_feature 10])
      ''<kml/>'' initial) = [(''Point'', 1), (''LineString'', 2)]"
proof -
  let ?L = "sample_libs [point_feature, line_feature 5, line_feature 10]"
  have h1: "parseFromString ?L ''<kml/>'' = Inr ''<kml/>''"
    by (simp add: sample_libs_def)
  have h2: "kml ?L ''<kml/>'' = Inr \<lparr>features = [point_feature, line_feature 5, line_feature 10]\<rparr>"
    by (simp add: sample_libs_def)
  have "keys (lineLengths (parseKML ?L ''<kml/>'' initial)) = [''LineString'']"
    and "elementCounts (parseKML ?L ''<kml/>'' initial) = [(''Point'', 1), (''LineString'', 2)]"
    by (simp_all add: run_defs sample_defs)
  with line_keys_counted_and_counts_positive [OF h1 h2, of initial] show ?thesis
    by simp
qed

subsection \<open>Counting does not depend on measuring\<close>

lemma each_feature_counts_cong:
  "counts p = counts q \<Longrightarrow> counts (each_feature len p f) = counts (each_feature len' q f)"
  by (simp add: each_feature_counts)

lemma foldl_counts_cong:
  "counts p = counts q \<Longrightarrow>
   counts (foldl (each_feature len) p fs) = counts (foldl (each_feature len') q fs)"
proof (induction fs arbitrary: p q)
  case Nil
  then show ?case by simp
next
  case (Cons f fs)
  have "counts (each_feature len p f) = counts (each_feature len' q f)"
    using Cons.prems by (rule each_feature_counts_cong)
  from Cons.IH [OF this] show ?case by simp
qed

lemma forEach_counts_any_length: "counts (forEach len fs) = counts (forEach len' fs)"
  unfolding forEach_def by (rule foldl_counts_cong) simp

text \<open>
  C10: \<open>elementCounts\<close> after \<open>parseKML\<close> is the same whatever the length function
  does, so a failing measurement never affects it; and for a single line-like feature whose
  measurement throws, the loop body has incremented the count of its type and left
  \<open>lengths\<close> untouched.
\<close>

theorem failed_measurement_still_counted:
  "elementCounts (parseKML L kmlText w) =
     elementCounts (parseKML (L\<lparr>turf_length := len'\<rparr>) kmlText w) \<and>
   (measurement_fails len f \<longrightarrow>
      counts (each_feature len p f) =
        set_prop (the (geometry_type f))
          (or0 (get_prop (counts p) (the (geometry_type f))) + 1) (counts p) \<and>
      lengths (each_feature len p f) = lengths p)"
proof -
  have "counts (forEach (turf_length L) fs) = counts (forEach len' fs)" for fs
    by (rule forEach_counts_any_length)
  then have "elementCounts (parseKML L kmlText w) =
      elementCounts (parseKML (L\<lparr>turf_length := len'\<rparr>) kmlText w)"
    by (simp add: parseKML_def catch_parse_def Let_def split: sum.splits)
  moreover have "counts (each_feature len p f) =
        set_prop (the (geometry_type f))
          (or0 (get_prop (counts p) (the (geometry_type f))) + 1) (counts p) \<and>
      lengths (each_feature len p f) = lengths p" if "measurement_fails len f"
    using that
    by (simp add: each_feature_counts each_feature_lengths_fails) (simp add: measurement_fails_def)
  ultimately show ?thesis by blast
qed

theorem failed_measurement_still_counted_witness:
  "measurement_fails sample_length (line_feature (- 1)) \<and>
   elementCounts (parseKML (sample_libs [line_feature (- 1), line_feature 5]) ''<kml/>'' initial)
     = [(''LineString'', 2)] \<and>
   elementCounts (parseKML ((sample_libs [line_feature (- 1), line_feature 5])
        \<lparr>turf_length := \<lambda>f. Inr 1\<rparr>) ''<kml/>'' initial)
     = [(''LineString'', 2)] \<and>
   lineLengths (parseKML (sample_libs [line_feature (- 1), line_feature 5]) ''<kml/>'' initial)
     = [(''LineString'', 5)]"
proof -
  let ?L = "sample_libs [line_feature (- 1), line_feature 5]"
  have h: "measurement_fails sample_length (line_feature (- 1))"
    by (simp add: more_defs run_defs sample_defs)
  have "elementCounts (parseKML ?L ''<kml/>'' initial) = [(''LineString'', 2)]"
    and "lineLengths (parseKML ?L ''<kml/>'' initial) = [(''LineString'', 5)]"
    by (simp_all add: run_defs sample_defs)
  with h failed_measurement_still_counted [of ?L "''<kml/>''" initial "\<lambda>f. Inr 1"
      sample_length "line_feature (- 1)"]
  show ?thesis by simp
qed

end
